theory Spec2Isabelle
  imports Main "HOL-Library.Word"
begin

section \<open>Strings\<close>

text \<open>
  A JavaScript string is a sequence of UTF-16 code units. String literals of the source
  are ASCII, so \<open>js\<close> maps each character of a literal to the code unit of the same
  number.
\<close>

type_synonym js_string = "16 word list"

definition js :: "string \<Rightarrow> js_string" where
  "js s = map of_char s"

text \<open>
  \<^verbatim>\<open>String.prototype.trim\<close> removes, from both ends, the code units that ECMAScript
  calls WhiteSpace (TAB, VT, FF, SP, NBSP, ZWNBSP and the Unicode space separators) or
  LineTerminator (LF, CR, LS, PS).
\<close>

definition isWhiteSpace :: "16 word \<Rightarrow> bool" where
  "isWhiteSpace c \<longleftrightarrow>
     c \<in> {0x0009, 0x000A, 0x000B, 0x000C, 0x000D, 0x0020, 0x00A0, 0x1680,
          0x2000, 0x2001, 0x2002, 0x2003, 0x2004, 0x2005, 0x2006, 0x2007, 0x2008,
          0x2009, 0x200A, 0x2028, 0x2029, 0x202F, 0x205F, 0x3000, 0xFEFF}"

definition trim :: "js_string \<Rightarrow> js_string" where
  "trim s = rev (dropWhile isWhiteSpace (rev (dropWhile isWhiteSpace s)))"

text \<open>\<^verbatim>\<open>Array.prototype.join\<close> on an array of strings.\<close>

fun join :: "js_string \<Rightarrow> js_string list \<Rightarrow> js_string" where
  "join sep [] = []"
| "join sep [x] = x"
| "join sep (x # y # ys) = x @ sep @ join sep (y # ys)"

section \<open>Statement formatting\<close>

text \<open>The statement separator, \<^verbatim>\<open>';'\<close>.\<close>

definition semi :: "16 word" where
  "semi = 0x3B"

text \<open>
  The loop of \<^verbatim>\<open>removeTrailingSemi\<close>:
  \<^verbatim>\<open>for (let i = lastNonSemiIdx; i > 0; i--) { if (query[i - 1] !== ';') { lastNonSemiIdx = i; break } }\<close>
  The second argument is \<open>i\<close>; the result is the value of \<open>lastNonSemiIdx\<close> after the
  loop, which is still \<open>query.length\<close> when the loop ends without a \<^verbatim>\<open>break\<close>.
\<close>

fun scanSemi :: "js_string \<Rightarrow> nat \<Rightarrow> nat" where
  "scanSemi query 0 = length query"
| "scanSemi query (Suc j) = (if query ! j \<noteq> semi then Suc j else scanSemi query j)"

definition removeTrailingSemi :: "js_string \<Rightarrow> js_string" where
  "removeTrailingSemi query =
     (let lastNonSemiIdx = scanSemi query (length query)
      in if lastNonSemiIdx \<noteq> length query then take lastNonSemiIdx query else query)"

definition formatQuery :: "js_string \<Rightarrow> js_string \<Rightarrow> js_string" where
  "formatQuery query' format' =
     removeTrailingSemi (trim query') @ js '' \<newline>FORMAT '' @ format'"

section \<open>Parameters\<close>

text \<open>A value of type \<^verbatim>\<open>string | Array<string>\<close> (a role, a response header).\<close>

datatype StringOrArray = Str js_string | Arr "js_string list"

datatype Auth = Credentials js_string js_string | AccessToken js_string

record OpenTelemetryHeaders =
  traceparent :: "js_string option"
  tracestate :: "js_string option"

text \<open>
  An optional field is an \<open>option\<close>: \<open>None\<close> is \<^verbatim>\<open>undefined\<close>. A settings object is a
  map from its own keys to their values; \<open>'v\<close> is the type of a setting's value, \<open>'u\<close> the
  type of a bound query parameter (\<^verbatim>\<open>unknown\<close>), \<open>'a\<close> the type \<^verbatim>\<open>AbortSignal\<close>.
\<close>

type_synonym 'v ClickHouseSettings = "js_string \<rightharpoonup> 'v"

record ('v, 'u, 'a) BaseQueryParams =
  clickhouse_settings :: "'v ClickHouseSettings option"
  query_params :: "(js_string \<rightharpoonup> 'u) option"
  abort_signal :: "'a option"
  query_id :: "js_string option"
  session_id :: "js_string option"
  role :: "StringOrArray option"
  auth :: "Auth option"
  opentelemetry_headers :: "OpenTelemetryHeaders option"

text \<open>
  The parameters with a statement: what \<^verbatim>\<open>connection.query\<close> and
  \<^verbatim>\<open>connection.command\<close> receive, and the parent of \<^verbatim>\<open>QueryParams\<close> and
  \<^verbatim>\<open>ExecParams\<close>.
\<close>

record ('v, 'u, 'a) ConnBaseQueryParams = "('v, 'u, 'a) BaseQueryParams" +
  query :: js_string

record ('v, 'u, 'a) QueryParams = "('v, 'u, 'a) ConnBaseQueryParams" +
  format :: "js_string option"

text \<open>
  \<^verbatim>\<open>ExecParams | ExecParamsWithValues<Stream>\<close>, also \<^verbatim>\<open>CommandParams\<close> and the
  request of \<^verbatim>\<open>connection.exec\<close>; \<open>values_exec\<close> is the field \<^verbatim>\<open>values\<close>.
\<close>

record ('v, 'u, 'a, 's) ExecParams = "('v, 'u, 'a) ConnBaseQueryParams" +
  values_exec :: "'s option"
  decompress_response_stream :: "bool option"

text \<open>
  \<^verbatim>\<open>InsertValues<Stream, T>\<close>: an array of rows, or something that is not an array
  (a stream, an \<^verbatim>\<open>InputJSON\<close> object).
\<close>

datatype ('s, 't) InsertValues = Rows "'t list" | NotArray 's

text \<open>
  The columns selector as it is at run time: an array of names or an object with an
  \<^verbatim>\<open>except\<close> array, either of which can be empty whatever the declared type says.
\<close>

datatype InsertColumns = Columns "js_string list" | Except "js_string list"

text \<open>
  \<open>values_insert\<close> and \<open>format_insert\<close> are the fields \<^verbatim>\<open>values\<close> and \<^verbatim>\<open>format\<close> of
  \<^verbatim>\<open>InsertParams\<close>.
\<close>

record ('v, 'u, 'a, 's, 't) InsertParams = "('v, 'u, 'a) BaseQueryParams" +
  table :: js_string
  values_insert :: "('s, 't) InsertValues"
  format_insert :: "js_string option"
  columns :: "InsertColumns option"

text \<open>The request of \<^verbatim>\<open>connection.insert\<close>; the payload is \<^verbatim>\<open>string | Stream\<close>.\<close>

datatype 's Payload = PayloadString js_string | PayloadStream 's

record ('v, 'u, 'a, 's) ConnInsertParams = "('v, 'u, 'a) ConnBaseQueryParams" +
  values_conn :: "'s Payload"

section \<open>Results\<close>

type_synonym ResponseHeaders = "js_string \<rightharpoonup> StringOrArray"

text \<open>\<open>query_id_result\<close> is the field \<^verbatim>\<open>query_id\<close> of a result; \<open>'m\<close> is \<^verbatim>\<open>ClickHouseSummary\<close>.\<close>

record 'm ConnBaseResult =
  query_id_result :: js_string
  response_headers :: ResponseHeaders
  summary :: "'m option"

record ('m, 's) ConnStreamResult = "'m ConnBaseResult" +
  stream :: 's

record 'm InsertResult = "'m ConnBaseResult" +
  executed :: bool

datatype 'e ConnPingResult = PingSuccess | PingFailure 'e

section \<open>Collaborators\<close>

text \<open>
  The connection, the values encoder and the result set factory are given to the client
  at construction. Each operation either returns (\<open>Inr\<close>) or raises (\<open>Inl\<close>); \<open>'e\<close> is the
  type of what is raised.
\<close>

record ('v, 'u, 'a, 's, 'e, 'm) Connection =
  conn_query :: "('v, 'u, 'a) ConnBaseQueryParams \<Rightarrow> 'e + ('m, 's) ConnStreamResult"
  conn_command :: "('v, 'u, 'a) ConnBaseQueryParams \<Rightarrow> 'e + 'm ConnBaseResult"
  conn_exec :: "('v, 'u, 'a, 's) ExecParams \<Rightarrow> 'e + ('m, 's) ConnStreamResult"
  conn_insert :: "('v, 'u, 'a, 's) ConnInsertParams \<Rightarrow> 'e + 'm ConnBaseResult"
  conn_ping :: "'e + 'e ConnPingResult"
  conn_close :: "'e + unit"

record ('s, 't, 'e) ValuesEncoder =
  validateInsertValues :: "('s, 't) InsertValues \<Rightarrow> js_string \<Rightarrow> 'e + unit"
  encodeValues :: "('s, 't) InsertValues \<Rightarrow> js_string \<Rightarrow> 'e + 's Payload"

text \<open>
  What the error callback given to \<^verbatim>\<open>makeResultSet\<close> logs besides the error: the
  session id, the role, the statement and the query id.
\<close>

datatype ErrorLogArgs = ErrorLogArgs "js_string option" "StringOrArray option" js_string js_string

type_synonym ('s, 'e, 'rs) MakeResultSet =
  "'s \<Rightarrow> js_string \<Rightarrow> js_string \<Rightarrow> ErrorLogArgs \<Rightarrow> ResponseHeaders \<Rightarrow> 'e + 'rs"

text \<open>The calls a client operation makes on its collaborators, with their arguments.\<close>

datatype ('v, 'u, 'a, 's, 't) call =
    ValidateInsertValues "('s, 't) InsertValues" js_string
  | EncodeValues "('s, 't) InsertValues" js_string
  | ConnQuery "('v, 'u, 'a) ConnBaseQueryParams"
  | ConnCommand "('v, 'u, 'a) ConnBaseQueryParams"
  | ConnExec "('v, 'u, 'a, 's) ExecParams"
  | ConnInsert "('v, 'u, 'a, 's) ConnInsertParams"
  | ConnPing
  | ConnClose
  | MakeResultSet 's js_string js_string ErrorLogArgs ResponseHeaders

text \<open>
  An operation yields its outcome and the calls it made, in order. \<open>andThen\<close> is
  sequencing: a raise ends the operation with the calls made so far.
\<close>

type_synonym ('e, 'x, 'c) io = "('e + 'x) \<times> 'c list"

definition call :: "'c \<Rightarrow> 'e + 'x \<Rightarrow> ('e, 'x, 'c) io" where
  "call c outcome = (outcome, [c])"

definition andThen :: "('e, 'x, 'c) io \<Rightarrow> ('x \<Rightarrow> ('e, 'y, 'c) io) \<Rightarrow> ('e, 'y, 'c) io" where
  "andThen m f =
     (case m of
        (Inl e, cs) \<Rightarrow> (Inl e, cs)
      | (Inr x, cs) \<Rightarrow> (case f x of (r, cs') \<Rightarrow> (r, cs @ cs')))"

definition return :: "'x \<Rightarrow> ('e, 'x, 'c) io" where
  "return x = (Inr x, [])"

section \<open>The client\<close>

text \<open>
  \<open>role_client\<close> is the field \<^verbatim>\<open>role\<close> of the client. In the operations below, the
  local variables \<^verbatim>\<open>query\<close> and \<^verbatim>\<open>format\<close> of the source are \<open>query'\<close> and \<open>format'\<close>.
\<close>

record ('v, 'u, 'a, 's, 't, 'e, 'm, 'rs) ClickHouseClient =
  clientClickHouseSettings :: "'v ClickHouseSettings"
  connection :: "('v, 'u, 'a, 's, 'e, 'm) Connection"
  makeResultSet :: "('s, 'e, 'rs) MakeResultSet"
  valuesEncoder :: "('s, 't, 'e) ValuesEncoder"
  sessionId :: "js_string option"
  role_client :: "StringOrArray option"

text \<open>The object spread \<^verbatim>\<open>{...a, ...b}\<close> of a settings object and an optional one.\<close>

definition spread :: "'v ClickHouseSettings \<Rightarrow> 'v ClickHouseSettings option \<Rightarrow> 'v ClickHouseSettings" where
  "spread a b = a ++ (case b of None \<Rightarrow> Map.empty | Some m \<Rightarrow> m)"

text \<open>The operator \<^verbatim>\<open>??\<close>.\<close>

definition nullish :: "'x option \<Rightarrow> 'x option \<Rightarrow> 'x option" where
  "nullish a b = (case a of None \<Rightarrow> b | Some x \<Rightarrow> Some x)"

definition withClientQueryParams ::
  "('v, 'u, 'a, 's, 't, 'e, 'm, 'rs) ClickHouseClient \<Rightarrow>
   ('v, 'u, 'a, 'z) BaseQueryParams_scheme \<Rightarrow> ('v, 'u, 'a) BaseQueryParams" where
  "withClientQueryParams this params =
     \<lparr> clickhouse_settings =
         Some (spread (clientClickHouseSettings this) (clickhouse_settings params)),
       query_params = query_params params,
       abort_signal = abort_signal params,
       query_id = query_id params,
       session_id = nullish (session_id params) (sessionId this),
       role = nullish (role params) (role_client this),
       auth = auth params,
       opentelemetry_headers = opentelemetry_headers params \<rparr>"

text \<open>
  \<^verbatim>\<open>isInsertColumnsExcept\<close>: an object with an own property \<^verbatim>\<open>except\<close>. An array of
  column names has none, so an empty array fails both tests of \<^verbatim>\<open>getInsertQuery\<close> and
  leaves \<^verbatim>\<open>columnsPart\<close> empty.
\<close>

definition isInsertColumnsExcept :: "InsertColumns \<Rightarrow> bool" where
  "isInsertColumnsExcept obj = (case obj of Except _ \<Rightarrow> True | Columns _ \<Rightarrow> False)"

definition getInsertQuery :: "('v, 'u, 'a, 's, 't) InsertParams \<Rightarrow> js_string \<Rightarrow> js_string" where
  "getInsertQuery params format' =
     (let columnsPart =
        (case columns params of
           None \<Rightarrow> []
         | Some (Columns cs) \<Rightarrow>
             if length cs > 0 then js '' ('' @ join (js '', '') cs @ js '')'' else []
         | Some (Except ex) \<Rightarrow>
             if isInsertColumnsExcept (Except ex) \<and> length ex > 0
             then js '' (* EXCEPT ('' @ join (js '', '') ex @ js ''))''
             else [])
      in js ''INSERT INTO '' @ trim (table params) @ columnsPart @ js '' FORMAT '' @ format')"

text \<open>
  \<^verbatim>\<open>{ query, ...queryParams }\<close>: the merged parameters never have a key \<^verbatim>\<open>query\<close>,
  so the spread leaves the statement as it is.
\<close>

definition withQuery ::
  "js_string \<Rightarrow> ('v, 'u, 'a) BaseQueryParams \<Rightarrow> ('v, 'u, 'a) ConnBaseQueryParams" where
  "withQuery q queryParams = BaseQueryParams.extend queryParams (ConnBaseQueryParams.fields q)"

definition query_op ::
  "('v, 'u, 'a, 's, 't, 'e, 'm, 'rs) ClickHouseClient \<Rightarrow> ('v, 'u, 'a) QueryParams \<Rightarrow>
   ('e, 'rs, ('v, 'u, 'a, 's, 't) call) io" where
  "query_op this params =
     (let format' = (case format params of None \<Rightarrow> js ''JSON'' | Some f \<Rightarrow> f);
          query' = formatQuery (query params) format';
          queryParams = withClientQueryParams this params;
          req = withQuery query' queryParams
      in andThen (call (ConnQuery req) (conn_query (connection this) req))
           (\<lambda>res.
              let args = ErrorLogArgs (session_id queryParams) (role queryParams) query'
                           (query_id_result res)
              in call (MakeResultSet (stream res) format' (query_id_result res) args
                         (response_headers res))
                   (makeResultSet this (stream res) format' (query_id_result res) args
                      (response_headers res))))"

definition command_op ::
  "('v, 'u, 'a, 's, 't, 'e, 'm, 'rs) ClickHouseClient \<Rightarrow> ('v, 'u, 'a, 's) ExecParams \<Rightarrow>
   ('e, 'm ConnBaseResult, ('v, 'u, 'a, 's, 't) call) io" where
  "command_op this params =
     (let query' = removeTrailingSemi (trim (query params));
          req = withQuery query' (withClientQueryParams this params)
      in call (ConnCommand req) (conn_command (connection this) req))"

definition exec_op ::
  "('v, 'u, 'a, 's, 't, 'e, 'm, 'rs) ClickHouseClient \<Rightarrow> ('v, 'u, 'a, 's) ExecParams \<Rightarrow>
   ('e, ('m, 's) ConnStreamResult, ('v, 'u, 'a, 's, 't) call) io" where
  "exec_op this params =
     (let query' = removeTrailingSemi (trim (query params));
          values = values_exec params;
          decompress =
            (case decompress_response_stream params of None \<Rightarrow> True | Some b \<Rightarrow> b);
          req = ConnBaseQueryParams.extend
                  (withQuery query' (withClientQueryParams this params))
                  (ExecParams.fields values (Some decompress))
      in call (ConnExec req) (conn_exec (connection this) req))"

text \<open>
  The operator \<^verbatim>\<open>||\<close> on an optional string: the empty string is falsy as
  \<^verbatim>\<open>undefined\<close> is.
\<close>

definition orElse :: "js_string option \<Rightarrow> js_string \<Rightarrow> js_string" where
  "orElse a b = (case a of None \<Rightarrow> b | Some x \<Rightarrow> if x = [] then b else x)"

definition insert_op ::
  "('v, 'u, 'a, 's, 't, 'e, 'm, 'rs) ClickHouseClient \<Rightarrow> ('v, 'u, 'a, 's, 't) InsertParams \<Rightarrow>
   ('e, 'm InsertResult, ('v, 'u, 'a, 's, 't) call) io" where
  "insert_op this params =
     (if (case values_insert params of Rows rows \<Rightarrow> length rows = 0 | NotArray _ \<Rightarrow> False)
      then return \<lparr> query_id_result = [], response_headers = Map.empty, summary = None,
                    executed = False \<rparr>
      else
        let format' = orElse (format_insert params) (js ''JSONCompactEachRow'') in
        andThen (call (ValidateInsertValues (values_insert params) format')
                   (validateInsertValues (valuesEncoder this) (values_insert params) format'))
          (\<lambda>_.
             let query' = getInsertQuery params format' in
             andThen (call (EncodeValues (values_insert params) format')
                        (encodeValues (valuesEncoder this) (values_insert params) format'))
               (\<lambda>encoded.
                  let req = ConnBaseQueryParams.extend
                              (withQuery query' (withClientQueryParams this params))
                              (ConnInsertParams.fields encoded)
                  in andThen (call (ConnInsert req) (conn_insert (connection this) req))
                       (\<lambda>result.
                          return (ConnBaseResult.extend result
                                    (InsertResult.fields True))))))"

definition ping_op ::
  "('v, 'u, 'a, 's, 't, 'e, 'm, 'rs) ClickHouseClient \<Rightarrow>
   ('e, 'e ConnPingResult, ('v, 'u, 'a, 's, 't) call) io" where
  "ping_op this = call ConnPing (conn_ping (connection this))"

definition close_op ::
  "('v, 'u, 'a, 's, 't, 'e, 'm, 'rs) ClickHouseClient \<Rightarrow>
   ('e, unit, ('v, 'u, 'a, 's, 't) call) io" where
  "close_op this = call ConnClose (conn_close (connection this))"

section \<open>The trim as the specification words it\<close>

text \<open>
  The specification's trailing-separator trim: the text without its maximal suffix of
  separators. It is written from the specification, not from the source, and is what
  \<open>removeTrailingSemi\<close> is compared with.
\<close>

definition specTrailingSeparatorTrim :: "js_string \<Rightarrow> js_string" where
  "specTrailingSeparatorTrim s = rev (dropWhile (\<lambda>c. c = semi) (rev s))"

section \<open>A client and calls to evaluate\<close>

text \<open>
  A connection that answers every request, reports a failed probe in the result of
  \<^verbatim>\<open>ping\<close>, and an encoder that accepts every dataset.
\<close>

definition example_result :: "unit ConnBaseResult" where
  "example_result =
     \<lparr> query_id_result = js ''id-1'', response_headers = Map.empty, summary = None \<rparr>"

definition example_connection :: "(nat, unit, unit, unit, js_string, unit) Connection" where
  "example_connection =
     \<lparr> conn_query = (\<lambda>_. Inr (ConnBaseResult.extend example_result (ConnStreamResult.fields ()))),
       conn_command = (\<lambda>_. Inr example_result),
       conn_exec = (\<lambda>_. Inr (ConnBaseResult.extend example_result (ConnStreamResult.fields ()))),
       conn_insert = (\<lambda>_. Inr example_result),
       conn_ping = Inr (PingFailure (js ''ECONNREFUSED'')),
       conn_close = Inr () \<rparr>"

definition example_client ::
  "(nat, unit, unit, unit, nat, js_string, unit, unit) ClickHouseClient" where
  "example_client =
     \<lparr> clientClickHouseSettings = [js ''max_threads'' \<mapsto> 4],
       connection = example_connection,
       makeResultSet = (\<lambda>_ _ _ _ _. Inr ()),
       valuesEncoder =
         \<lparr> validateInsertValues = (\<lambda>_ _. Inr ()),
           encodeValues = (\<lambda>_ _. Inr (PayloadString (js ''[1]''))) \<rparr>,
       sessionId = Some (js ''s-client''),
       role_client = None \<rparr>"

definition example_base :: "(nat, unit, unit) BaseQueryParams" where
  "example_base =
     \<lparr> clickhouse_settings = Some [js ''max_threads'' \<mapsto> 8, js ''readonly'' \<mapsto> 1],
       query_params = None, abort_signal = None, query_id = Some (js ''id-call''),
       session_id = None, role = Some (Str (js ''admin'')), auth = None,
       opentelemetry_headers = None \<rparr>"

definition example_insert :: "(nat, unit, unit, unit, nat) InsertParams" where
  "example_insert =
     BaseQueryParams.extend example_base
       (InsertParams.fields (js ''t'') (Rows [1]) None (Some (Except [js ''b''])))"

section \<open>Facts about strings\<close>

lemma not_isWhiteSpace_semi: "\<not> isWhiteSpace semi"
  by (simp add: isWhiteSpace_def semi_def)

lemma trim_replicate_semi: "trim (replicate n semi) = replicate n semi"
  by (simp add: trim_def dropWhile_replicate not_isWhiteSpace_semi)

lemma trim_t: "trim (js ''t'') = js ''t''"
  by (simp add: trim_def js_def isWhiteSpace_def)

section \<open>The trailing-separator trim\<close>

text \<open>Going down over separators does not change what the scan returns.\<close>

lemma scanSemi_run:
  "j \<le> i \<Longrightarrow> (\<forall>k. j \<le> k \<and> k < i \<longrightarrow> q ! k = semi) \<Longrightarrow> scanSemi q i = scanSemi q j"
proof (induction i)
  case 0
  then show ?case by simp
next
  case (Suc i)
  show ?case
  proof (cases "j = Suc i")
    case True
    then show ?thesis by simp
  next
    case False
    with Suc.prems have "j \<le> i" by simp
    moreover have "q ! i = semi" using Suc.prems \<open>j \<le> i\<close> by simp
    moreover have "\<forall>k. j \<le> k \<and> k < i \<longrightarrow> q ! k = semi" using Suc.prems by simp
    ultimately show ?thesis using Suc.IH by simp
  qed
qed

lemma scanSemi_replicate: "scanSemi (replicate n semi) n = n"
  using scanSemi_run [of 0 n "replicate n semi"] by simp

lemma scanSemi_append:
  assumes "c \<noteq> semi"
  shows "scanSemi (p @ c # replicate n semi) (length p + Suc n) = Suc (length p)"
proof -
  let ?q = "p @ c # replicate n semi"
  have "scanSemi ?q (length p + Suc n) = scanSemi ?q (Suc (length p))"
    by (rule scanSemi_run) (auto simp: nth_append nth_Cons')
  also have "\<dots> = Suc (length p)" using assms by simp
  finally show ?thesis .
qed

lemma removeTrailingSemi_replicate: "removeTrailingSemi (replicate n semi) = replicate n semi"
  by (simp add: removeTrailingSemi_def scanSemi_replicate)

text \<open>
  A text with a code unit other than the separator loses exactly its trailing run of
  separators: whatever stands before the last such code unit stays, separators included.
\<close>

lemma removeTrailingSemi_append:
  "c \<noteq> semi \<Longrightarrow> removeTrailingSemi (p @ c # replicate n semi) = p @ [c]"
  using scanSemi_append [of c p n] by (simp add: removeTrailingSemi_def)

lemma removeTrailingSemi_examples:
  "removeTrailingSemi (js ''SELECT 1;;;'') = js ''SELECT 1''"
  "removeTrailingSemi (js ''SELECT 1;x;'') = js ''SELECT 1;x''"
  by (simp_all add: removeTrailingSemi_def js_def semi_def)

lemma split_trailing:
  "\<exists>n. q = rev (dropWhile (\<lambda>c. c = semi) (rev q)) @ replicate n semi"
proof -
  let ?t = "takeWhile (\<lambda>c. c = semi) (rev q)"
  have "?t = replicate (length ?t) semi"
    by (metis (mono_tags, lifting) replicate_length_same set_takeWhileD)
  moreover have "rev q = ?t @ dropWhile (\<lambda>c. c = semi) (rev q)"
    by simp
  ultimately have "rev q = replicate (length ?t) semi @ dropWhile (\<lambda>c. c = semi) (rev q)"
    by metis
  then have "q = rev (dropWhile (\<lambda>c. c = semi) (rev q)) @ replicate (length ?t) semi"
    by (metis rev_append rev_replicate rev_rev_ident)
  then show ?thesis ..
qed

lemma removeTrailingSemi_eq:
  "removeTrailingSemi q =
     (if set q \<subseteq> {semi} then q else rev (dropWhile (\<lambda>c. c = semi) (rev q)))"
proof (cases "set q \<subseteq> {semi}")
  case True
  then have "q = replicate (length q) semi"
    by (metis replicate_length_same subset_singletonD empty_iff singletonD subsetD)
  then show ?thesis using True removeTrailingSemi_replicate [of "length q"] by simp
next
  case False
  let ?d = "dropWhile (\<lambda>c. c = semi) (rev q)"
  obtain n where q: "q = rev ?d @ replicate n semi" using split_trailing by blast
  have "?d \<noteq> []" using False by (auto simp: dropWhile_eq_Nil_conv)
  then obtain c r where d: "?d = c # r" by (cases ?d) auto
  then have c: "c \<noteq> semi" using hd_dropWhile [of "\<lambda>c. c = semi" "rev q"] by auto
  have "q = rev r @ c # replicate n semi" using q d by simp
  then have "removeTrailingSemi q = rev r @ [c]"
    using removeTrailingSemi_append [OF c, of "rev r" n] by simp
  then show ?thesis using False d by simp
qed

text \<open>The trim only ever removes separators from the end.\<close>

lemma removeTrailingSemi_suffix: "\<exists>n. q = removeTrailingSemi q @ replicate n semi"
proof (cases "set q \<subseteq> {semi}")
  case True
  then have "q = removeTrailingSemi q @ replicate 0 semi"
    by (simp add: removeTrailingSemi_eq)
  then show ?thesis ..
next
  case False
  then show ?thesis using split_trailing [of q] by (simp add: removeTrailingSemi_eq)
qed

text \<open>
  On a text that is not made of separators only, the code's trim is the specification's.
\<close>

lemma removeTrailingSemi_spec:
  "\<not> set q \<subseteq> {semi} \<Longrightarrow> removeTrailingSemi q = specTrailingSeparatorTrim q"
  by (simp add: removeTrailingSemi_eq specTrailingSeparatorTrim_def)

section \<open>The requests of the operations\<close>

lemma query_withQuery: "query (withQuery q b) = q"
  by (simp add: withQuery_def BaseQueryParams.defs ConnBaseQueryParams.defs)

lemma truncate_withQuery: "BaseQueryParams.truncate (withQuery q b) = b"
  by (simp add: withQuery_def BaseQueryParams.defs ConnBaseQueryParams.defs)

lemma withClientQueryParams_query_update:
  "withClientQueryParams this (p\<lparr>query := q\<rparr>) = withClientQueryParams this p"
  by (simp add: withClientQueryParams_def)

lemma withClientQueryParams_format_update:
  "withClientQueryParams this (p\<lparr>format := f\<rparr>) = withClientQueryParams this p"
  by (simp add: withClientQueryParams_def)

lemma withClientQueryParams_columns_update:
  "withClientQueryParams this (p\<lparr>columns := c\<rparr>) = withClientQueryParams this p"
  by (simp add: withClientQueryParams_def)

lemma command_op_calls:
  "snd (command_op this p) =
     [ConnCommand (withQuery (removeTrailingSemi (trim (query p)))
        (withClientQueryParams this p))]"
  by (simp add: command_op_def call_def Let_def)

lemma exec_op_calls:
  "\<exists>r. snd (exec_op this p) = [ConnExec r] \<and>
     query r = removeTrailingSemi (trim (query p)) \<and>
     BaseQueryParams.truncate r = withClientQueryParams this p \<and>
     values_exec r = values_exec p"
  by (simp add: exec_op_def call_def Let_def withQuery_def BaseQueryParams.defs
      ConnBaseQueryParams.defs ExecParams.defs)

lemma query_op_calls:
  "\<exists>rest. snd (query_op this p) =
     ConnQuery (withQuery
        (formatQuery (query p) (case format p of None \<Rightarrow> js ''JSON'' | Some f \<Rightarrow> f))
        (withClientQueryParams this p)) # rest \<and>
     (rest = [] \<or>
      (\<exists>s qid args h. rest =
         [MakeResultSet s (case format p of None \<Rightarrow> js ''JSON'' | Some f \<Rightarrow> f) qid args h]))"
  by (auto simp add: query_op_def call_def Let_def andThen_def split: sum.splits prod.splits)

lemma insert_op_calls:
  assumes "values_insert p \<noteq> Rows []"
  shows "snd (insert_op this p) =
     (let F = orElse (format_insert p) (js ''JSONCompactEachRow'');
          V = ValidateInsertValues (values_insert p) F;
          E = EncodeValues (values_insert p) F
      in case validateInsertValues (valuesEncoder this) (values_insert p) F of
           Inl _ \<Rightarrow> [V]
         | Inr _ \<Rightarrow>
             (case encodeValues (valuesEncoder this) (values_insert p) F of
                Inl _ \<Rightarrow> [V, E]
              | Inr encoded \<Rightarrow>
                  [V, E,
                   ConnInsert (ConnBaseQueryParams.extend
                     (withQuery (getInsertQuery p F) (withClientQueryParams this p))
                     (ConnInsertParams.fields encoded))]))"
proof -
  have "\<not> (case values_insert p of Rows rows \<Rightarrow> length rows = 0 | NotArray _ \<Rightarrow> False)"
    using assms by (cases "values_insert p") auto
  then show ?thesis
    unfolding insert_op_def Let_def
    by (simp add: andThen_def call_def return_def split: sum.splits prod.splits)
qed

lemma insert_op_empty: "values_insert p = Rows [] \<Longrightarrow> snd (insert_op this p) = []"
  by (simp add: insert_op_def return_def)

lemma truncate_insert_request:
  "BaseQueryParams.truncate
     (ConnBaseQueryParams.extend (withQuery q b) (ConnInsertParams.fields v)) = b"
  by (simp add: withQuery_def BaseQueryParams.defs ConnBaseQueryParams.defs
      ConnInsertParams.defs)

lemma query_insert_request:
  "query (ConnBaseQueryParams.extend (withQuery q b) (ConnInsertParams.fields v)) = q"
  by (simp add: withQuery_def BaseQueryParams.defs ConnBaseQueryParams.defs
      ConnInsertParams.defs)

lemma values_conn_insert_request:
  "values_conn (ConnBaseQueryParams.extend (withQuery q b) (ConnInsertParams.fields v)) = v"
  by (simp add: withQuery_def BaseQueryParams.defs ConnBaseQueryParams.defs
      ConnInsertParams.defs)

lemma insert_op_request:
  assumes "ConnInsert r \<in> set (snd (insert_op this p))"
  shows "BaseQueryParams.truncate r = withClientQueryParams this p"
proof (cases "values_insert p = Rows []")
  case True
  then show ?thesis using assms by (simp add: insert_op_empty)
next
  case False
  show ?thesis
    using assms unfolding insert_op_calls [OF False] Let_def
    by (auto simp: truncate_insert_request split: sum.splits)
qed

section \<open>The merge of the settings\<close>

lemma spread_idem: "spread (spread a b) b = spread a b"
  by (cases b) (auto simp: spread_def map_add_def fun_eq_iff split: option.splits)

lemma spread_Some:
  "spread a (Some m) = (\<lambda>k. case m k of Some v \<Rightarrow> Some v | None \<Rightarrow> a k)"
  by (auto simp: spread_def map_add_def fun_eq_iff split: option.splits)

lemma spread_None: "spread a None = a"
  by (simp add: spread_def)

section \<open>The claims\<close>

text \<open>
  C1. For every statement text ending in one or more \<^verbatim>\<open>';'\<close>, the trim removes exactly
  the maximal trailing run of \<^verbatim>\<open>';'\<close>. The code does so when the text has a code unit
  other than \<^verbatim>\<open>';'\<close> (\<open>removeTrailingSemi_append\<close>), and the two texts the claim names
  come out as it says (\<open>removeTrailingSemi_examples\<close>). A text made of separators only also
  ends in one or more \<^verbatim>\<open>';'\<close>, its maximal trailing run is the whole text, and the code
  returns it whole: the loop ends without a \<^verbatim>\<open>break\<close>, \<^verbatim>\<open>lastNonSemiIdx\<close> is still
  \<^verbatim>\<open>query.length\<close>, and nothing is cut.
\<close>

theorem removeTrailingSemi_only_separators:
  "removeTrailingSemi (js '';;;'') = js '';;;'' \<and> removeTrailingSemi (js '';;;'') \<noteq> []"
  by (simp add: removeTrailingSemi_def js_def semi_def)

text \<open>
  C2. An insert whose values are an array of length zero returns
  \<^verbatim>\<open>{executed: false, query_id: '', response_headers: {}}\<close> and calls neither the encoder
  (no validation, no encoding) nor the connection: it makes no call at all.
\<close>

theorem insert_empty_array:
  assumes "values_insert p = Rows []"
  shows "insert_op this p =
     (Inr \<lparr> query_id_result = [], response_headers = Map.empty, summary = None,
            executed = False \<rparr>, [])"
  using assms by (simp add: insert_op_def return_def)

theorem insert_empty_array_witness:
  "values_insert (example_insert\<lparr>values_insert := Rows []\<rparr>) = Rows [] \<and>
   insert_op example_client (example_insert\<lparr>values_insert := Rows []\<rparr>) =
     (Inr \<lparr> query_id_result = [], response_headers = Map.empty, summary = None,
            executed = False \<rparr>, [])"
  using insert_empty_array [of "example_insert\<lparr>values_insert := Rows []\<rparr>" example_client]
  by simp

text \<open>
  C3. The effective settings are the key-wise shallow merge of the client's settings and
  the call's: a key of the call's map has the call's value, every other key has the
  client's value; with no settings in the call they are the client's. Merging the call's
  settings into the merged result gives the merged result again. The client's
  \<^verbatim>\<open>{max_threads: 4}\<close> and the call's \<^verbatim>\<open>{max_threads: 8, readonly: 1}\<close> give
  \<^verbatim>\<open>{max_threads: 8, readonly: 1}\<close>.
\<close>

theorem settings_merge:
  "clickhouse_settings (withClientQueryParams this (p\<lparr>clickhouse_settings := Some m\<rparr>)) =
     Some (\<lambda>k. case m k of Some v \<Rightarrow> Some v | None \<Rightarrow> clientClickHouseSettings this k) \<and>
   clickhouse_settings (withClientQueryParams this (p\<lparr>clickhouse_settings := None\<rparr>)) =
     Some (clientClickHouseSettings this) \<and>
   (\<exists>e. clickhouse_settings (withClientQueryParams this p) = Some e \<and>
      clickhouse_settings (withClientQueryParams (this\<lparr>clientClickHouseSettings := e\<rparr>) p) =
        Some e) \<and>
   clickhouse_settings (withClientQueryParams
      (this\<lparr>clientClickHouseSettings := [js ''max_threads'' \<mapsto> 4::nat]\<rparr>)
      (p\<lparr>clickhouse_settings := Some [js ''max_threads'' \<mapsto> 8, js ''readonly'' \<mapsto> 1]\<rparr>)) =
     Some [js ''max_threads'' \<mapsto> 8, js ''readonly'' \<mapsto> 1]"
proof (intro conjI)
  show "clickhouse_settings (withClientQueryParams this (p\<lparr>clickhouse_settings := Some m\<rparr>)) =
     Some (\<lambda>k. case m k of Some v \<Rightarrow> Some v | None \<Rightarrow> clientClickHouseSettings this k)"
    by (simp add: withClientQueryParams_def spread_Some)
  show "clickhouse_settings (withClientQueryParams this (p\<lparr>clickhouse_settings := None\<rparr>)) =
     Some (clientClickHouseSettings this)"
    by (simp add: withClientQueryParams_def spread_None)
  show "\<exists>e. clickhouse_settings (withClientQueryParams this p) = Some e \<and>
      clickhouse_settings (withClientQueryParams (this\<lparr>clientClickHouseSettings := e\<rparr>) p) =
        Some e"
    by (simp add: withClientQueryParams_def spread_idem)
  have "spread [js ''max_threads'' \<mapsto> 4::nat]
      (Some [js ''max_threads'' \<mapsto> 8, js ''readonly'' \<mapsto> 1]) =
      [js ''max_threads'' \<mapsto> 8, js ''readonly'' \<mapsto> 1]"
    by (auto simp: spread_def fun_eq_iff js_def)
  then show "clickhouse_settings (withClientQueryParams
      (this\<lparr>clientClickHouseSettings := [js ''max_threads'' \<mapsto> 4::nat]\<rparr>)
      (p\<lparr>clickhouse_settings := Some [js ''max_threads'' \<mapsto> 8, js ''readonly'' \<mapsto> 1]\<rparr>)) =
     Some [js ''max_threads'' \<mapsto> 8, js ''readonly'' \<mapsto> 1]"
    by (simp add: withClientQueryParams_def)
qed

text \<open>
  C4. An insert with a non-empty dataset, \<^verbatim>\<open>columns = {except: ["b"]}\<close>, no format and
  table \<^verbatim>\<open>"t"\<close>: the encoder's validation is called first, with the format
  \<^verbatim>\<open>JSONCompactEachRow\<close>; if it returns, the encoding is called with the same format; if
  that returns, the connection's insert is called, with the statement
  \<^verbatim>\<open>INSERT INTO t (* EXCEPT (b)) FORMAT JSONCompactEachRow\<close> and the encoded values.
  There is no other call, and none after a raise.
\<close>

theorem insert_except_default_format:
  assumes "values_insert p \<noteq> Rows []"
    and "columns p = Some (Except [js ''b''])"
    and "format_insert p = None"
    and "table p = js ''t''"
  shows "getInsertQuery p (js ''JSONCompactEachRow'') =
       js ''INSERT INTO t (* EXCEPT (b)) FORMAT JSONCompactEachRow'' \<and>
     snd (insert_op this p) =
     (let F = js ''JSONCompactEachRow'';
          V = ValidateInsertValues (values_insert p) F;
          E = EncodeValues (values_insert p) F
      in case validateInsertValues (valuesEncoder this) (values_insert p) F of
           Inl _ \<Rightarrow> [V]
         | Inr _ \<Rightarrow>
             (case encodeValues (valuesEncoder this) (values_insert p) F of
                Inl _ \<Rightarrow> [V, E]
              | Inr encoded \<Rightarrow>
                  [V, E,
                   ConnInsert (ConnBaseQueryParams.extend
                     (withQuery (js ''INSERT INTO t (* EXCEPT (b)) FORMAT JSONCompactEachRow'')
                        (withClientQueryParams this p))
                     (ConnInsertParams.fields encoded))]))"
proof -
  have q: "getInsertQuery p (js ''JSONCompactEachRow'') =
      js ''INSERT INTO t (* EXCEPT (b)) FORMAT JSONCompactEachRow''"
    using assms(2) assms(4)
    by (simp add: getInsertQuery_def isInsertColumnsExcept_def trim_t) (simp add: js_def)
  show ?thesis
    using insert_op_calls [OF assms(1), of this] q assms(3)
    by (simp add: orElse_def Let_def split: sum.splits)
qed

theorem insert_except_default_format_witness:
  "values_insert example_insert \<noteq> Rows [] \<and>
   columns example_insert = Some (Except [js ''b'']) \<and>
   format_insert example_insert = None \<and>
   table example_insert = js ''t'' \<and>
   (\<exists>r. snd (insert_op example_client example_insert) =
      [ValidateInsertValues (Rows [1]) (js ''JSONCompactEachRow''),
       EncodeValues (Rows [1]) (js ''JSONCompactEachRow''),
       ConnInsert r] \<and>
      query r = js ''INSERT INTO t (* EXCEPT (b)) FORMAT JSONCompactEachRow'' \<and>
      values_conn r = PayloadString (js ''[1]''))"
proof -
  have h: "values_insert example_insert \<noteq> Rows []"
    "columns example_insert = Some (Except [js ''b''])"
    "format_insert example_insert = None"
    "table example_insert = js ''t''"
    by (simp_all add: example_insert_def BaseQueryParams.defs InsertParams.defs)
  have v: "values_insert example_insert = Rows [1]"
    by (simp add: example_insert_def BaseQueryParams.defs InsertParams.defs)
  have e: "valuesEncoder example_client =
      \<lparr> validateInsertValues = (\<lambda>_ _. Inr ()),
        encodeValues = (\<lambda>_ _. Inr (PayloadString (js ''[1]''))) \<rparr>"
    by (simp add: example_client_def)
  let ?r = "ConnBaseQueryParams.extend
      (withQuery (js ''INSERT INTO t (* EXCEPT (b)) FORMAT JSONCompactEachRow'')
         (withClientQueryParams example_client example_insert))
      (ConnInsertParams.fields (PayloadString (js ''[1]'')))"
  have "snd (insert_op example_client example_insert) =
      [ValidateInsertValues (Rows [1]) (js ''JSONCompactEachRow''),
       EncodeValues (Rows [1]) (js ''JSONCompactEachRow''),
       ConnInsert ?r]"
    using insert_except_default_format [OF h, of example_client]
    by (simp add: v e Let_def)
  moreover have "query ?r = js ''INSERT INTO t (* EXCEPT (b)) FORMAT JSONCompactEachRow''"
    by (rule query_insert_request)
  moreover have "values_conn ?r = PayloadString (js ''[1]'')"
    by (rule values_conn_insert_request)
  ultimately show ?thesis using h by blast
qed

text \<open>
  The statement of a query call with no format, on a text that is not made of separators
  only: the trimmed text without its maximal suffix of separators, then a space, a
  newline and \<^verbatim>\<open>FORMAT JSON\<close>; the result set factory, when called, gets \<^verbatim>\<open>JSON\<close>.
\<close>

lemma query_default_format_stripped:
  assumes "format p = None" and "\<not> set (trim (query p)) \<subseteq> {semi}"
  shows "\<exists>rest. snd (query_op this p) =
       ConnQuery (withQuery
          (specTrailingSeparatorTrim (trim (query p)) @ js '' \<newline>FORMAT JSON'')
          (withClientQueryParams this p)) # rest \<and>
       (rest = [] \<or> (\<exists>s qid args h. rest = [MakeResultSet s (js ''JSON'') qid args h]))"
proof -
  have "formatQuery (query p) (js ''JSON'') =
      specTrailingSeparatorTrim (trim (query p)) @ js '' \<newline>FORMAT JSON''"
    using assms(2) by (simp add: formatQuery_def removeTrailingSemi_spec) (simp add: js_def)
  then show ?thesis
    using query_op_calls [of this p] assms(1) by auto
qed

lemma query_default_format_examples:
  "\<exists>rest. snd (query_op this (p\<lparr>query := js ''SELECT 1'', format := None\<rparr>)) =
     ConnQuery (withQuery (js ''SELECT 1 \<newline>FORMAT JSON'')
       (withClientQueryParams this p)) # rest"
  "\<exists>rest. snd (query_op this (p\<lparr>query := js ''  SELECT 1;x;; '', format := None\<rparr>)) =
     ConnQuery (withQuery (js ''SELECT 1;x \<newline>FORMAT JSON'')
       (withClientQueryParams this p)) # rest"
proof -
  have a: "formatQuery (js ''SELECT 1'') (js ''JSON'') = js ''SELECT 1 \<newline>FORMAT JSON''"
    by (simp add: formatQuery_def trim_def isWhiteSpace_def removeTrailingSemi_def
        js_def semi_def)
  have b: "formatQuery (js ''  SELECT 1;x;; '') (js ''JSON'') =
      js ''SELECT 1;x \<newline>FORMAT JSON''"
    by (simp add: formatQuery_def trim_def isWhiteSpace_def removeTrailingSemi_def
        js_def semi_def)
  show "\<exists>rest. snd (query_op this (p\<lparr>query := js ''SELECT 1'', format := None\<rparr>)) =
     ConnQuery (withQuery (js ''SELECT 1 \<newline>FORMAT JSON'')
       (withClientQueryParams this p)) # rest"
    using query_op_calls [of this "p\<lparr>query := js ''SELECT 1'', format := None\<rparr>"] a
    by (auto simp: withClientQueryParams_query_update withClientQueryParams_format_update)
  show "\<exists>rest. snd (query_op this (p\<lparr>query := js ''  SELECT 1;x;; '', format := None\<rparr>)) =
     ConnQuery (withQuery (js ''SELECT 1;x \<newline>FORMAT JSON'')
       (withClientQueryParams this p)) # rest"
    using query_op_calls [of this "p\<lparr>query := js ''  SELECT 1;x;; '', format := None\<rparr>"] b
    by (auto simp: withClientQueryParams_query_update withClientQueryParams_format_update)
qed

text \<open>
  C5. A query call with no format sends the trimmed, separator-stripped text followed
  by the format clause, with the format \<^verbatim>\<open>JSON\<close>. The default format and the clause are
  as stated (\<open>query_default_format_stripped\<close>, \<open>query_default_format_examples\<close>). The text
  is not always separator-stripped: for the text \<^verbatim>\<open>" ;;; "\<close>, whose trimmed text
  \<^verbatim>\<open>";;;"\<close> is separators only, the stripped text is empty and the statement would be
  the clause alone, but the code sends \<^verbatim>\<open>";;; \nFORMAT JSON"\<close>.
\<close>

theorem query_only_separators_sent:
  "\<exists>r rest. snd (query_op this (p\<lparr>query := js '' ;;; '', format := None\<rparr>)) =
       ConnQuery r # rest \<and>
     query r = js '';;; \<newline>FORMAT JSON'' \<and>
     specTrailingSeparatorTrim (trim (js '' ;;; '')) @ js '' \<newline>FORMAT JSON'' =
       js '' \<newline>FORMAT JSON'' \<and>
     query r \<noteq> specTrailingSeparatorTrim (trim (js '' ;;; '')) @ js '' \<newline>FORMAT JSON''"
proof -
  have a: "formatQuery (js '' ;;; '') (js ''JSON'') = js '';;; \<newline>FORMAT JSON''"
    by (simp add: formatQuery_def trim_def isWhiteSpace_def removeTrailingSemi_def
        js_def semi_def)
  have b: "specTrailingSeparatorTrim (trim (js '' ;;; '')) @ js '' \<newline>FORMAT JSON'' =
      js '' \<newline>FORMAT JSON''"
    by (simp add: specTrailingSeparatorTrim_def trim_def isWhiteSpace_def js_def semi_def)
  have c: "js '';;; \<newline>FORMAT JSON'' \<noteq> js '' \<newline>FORMAT JSON''"
    by (simp add: js_def)
  obtain rest where "snd (query_op this (p\<lparr>query := js '' ;;; '', format := None\<rparr>)) =
      ConnQuery (withQuery (js '';;; \<newline>FORMAT JSON'')
        (withClientQueryParams this (p\<lparr>query := js '' ;;; '', format := None\<rparr>))) # rest"
    using query_op_calls [of this "p\<lparr>query := js '' ;;; '', format := None\<rparr>"] a by auto
  then show ?thesis using b c query_withQuery by metis
qed

text \<open>
  C6. With an empty inclusion list \<^verbatim>\<open>[]\<close> or an empty exclusion set \<^verbatim>\<open>{except: []}\<close> as
  the columns selector, the statement is the one generated with no selector, which has
  no column clause: \<^verbatim>\<open>INSERT INTO\<close>, the trimmed table name, \<^verbatim>\<open>FORMAT\<close> and the format,
  for table \<^verbatim>\<open>"t"\<close> and the default format
  \<^verbatim>\<open>INSERT INTO t FORMAT JSONCompactEachRow\<close>; the whole insert does what it does with no
  selector.
\<close>

theorem insert_empty_columns:
  "getInsertQuery (p\<lparr>columns := Some (Columns [])\<rparr>) f =
     getInsertQuery (p\<lparr>columns := None\<rparr>) f \<and>
   getInsertQuery (p\<lparr>columns := Some (Except [])\<rparr>) f =
     getInsertQuery (p\<lparr>columns := None\<rparr>) f \<and>
   getInsertQuery (p\<lparr>columns := None\<rparr>) f =
     js ''INSERT INTO '' @ trim (table p) @ js '' FORMAT '' @ f \<and>
   getInsertQuery (p\<lparr>table := js ''t'', columns := Some (Columns [])\<rparr>)
     (js ''JSONCompactEachRow'') = js ''INSERT INTO t FORMAT JSONCompactEachRow'' \<and>
   insert_op this (p\<lparr>columns := Some (Columns [])\<rparr>) = insert_op this (p\<lparr>columns := None\<rparr>) \<and>
   insert_op this (p\<lparr>columns := Some (Except [])\<rparr>) = insert_op this (p\<lparr>columns := None\<rparr>)"
proof -
  have c: "getInsertQuery (p\<lparr>columns := Some (Columns [])\<rparr>) g =
      getInsertQuery (p\<lparr>columns := None\<rparr>) g" for g
    by (simp add: getInsertQuery_def)
  have e: "getInsertQuery (p\<lparr>columns := Some (Except [])\<rparr>) g =
      getInsertQuery (p\<lparr>columns := None\<rparr>) g" for g
    by (simp add: getInsertQuery_def)
  have n: "getInsertQuery (p\<lparr>columns := None\<rparr>) f =
      js ''INSERT INTO '' @ trim (table p) @ js '' FORMAT '' @ f"
    by (simp add: getInsertQuery_def)
  have t: "getInsertQuery (p\<lparr>table := js ''t'', columns := Some (Columns [])\<rparr>)
      (js ''JSONCompactEachRow'') = js ''INSERT INTO t FORMAT JSONCompactEachRow''"
    by (simp add: getInsertQuery_def trim_t) (simp add: js_def)
  have ic: "insert_op this (p\<lparr>columns := Some (Columns [])\<rparr>) =
      insert_op this (p\<lparr>columns := None\<rparr>)"
    by (simp add: insert_op_def c withClientQueryParams_columns_update)
  have ie: "insert_op this (p\<lparr>columns := Some (Except [])\<rparr>) =
      insert_op this (p\<lparr>columns := None\<rparr>)"
    by (simp add: insert_op_def e withClientQueryParams_columns_update)
  show ?thesis using c e n t ic ie by blast
qed

text \<open>
  C7. In the effective parameters of a call, the session id and the role are the call's
  when the call has one and the client's otherwise; the query parameters, the
  cancellation signal, the query id, the auth override and the trace headers are the
  call's own, whatever the client holds. These effective parameters of the call are what
  query, command, exec and insert send to the connection.
\<close>

theorem effective_params:
  "session_id (withClientQueryParams this p) =
     (case session_id p of Some s \<Rightarrow> Some s | None \<Rightarrow> sessionId this) \<and>
   role (withClientQueryParams this p) =
     (case role p of Some r \<Rightarrow> Some r | None \<Rightarrow> role_client this) \<and>
   query_params (withClientQueryParams this p) = query_params p \<and>
   abort_signal (withClientQueryParams this p) = abort_signal p \<and>
   query_id (withClientQueryParams this p) = query_id p \<and>
   auth (withClientQueryParams this p) = auth p \<and>
   opentelemetry_headers (withClientQueryParams this p) = opentelemetry_headers p \<and>
   (\<exists>r rest. snd (query_op this pq) = ConnQuery r # rest \<and>
      BaseQueryParams.truncate r = withClientQueryParams this pq) \<and>
   (\<exists>r. snd (command_op this pe) = [ConnCommand r] \<and>
      BaseQueryParams.truncate r = withClientQueryParams this pe) \<and>
   (\<exists>r. snd (exec_op this pe) = [ConnExec r] \<and>
      BaseQueryParams.truncate r = withClientQueryParams this pe) \<and>
   (\<forall>r. ConnInsert r \<in> set (snd (insert_op this pi)) \<longrightarrow>
      BaseQueryParams.truncate r = withClientQueryParams this pi)"
proof -
  have "\<exists>r rest. snd (query_op this pq) = ConnQuery r # rest \<and>
      BaseQueryParams.truncate r = withClientQueryParams this pq"
    using query_op_calls [of this pq] truncate_withQuery by blast
  moreover have "\<exists>r. snd (command_op this pe) = [ConnCommand r] \<and>
      BaseQueryParams.truncate r = withClientQueryParams this pe"
    using command_op_calls [of this pe] truncate_withQuery by blast
  moreover have "\<exists>r. snd (exec_op this pe) = [ConnExec r] \<and>
      BaseQueryParams.truncate r = withClientQueryParams this pe"
    using exec_op_calls [of this pe] by blast
  moreover have "\<forall>r. ConnInsert r \<in> set (snd (insert_op this pi)) \<longrightarrow>
      BaseQueryParams.truncate r = withClientQueryParams this pi"
    using insert_op_request by blast
  ultimately show ?thesis
    by (simp add: withClientQueryParams_def nullish_def split: option.splits)
qed

theorem effective_params_witness:
  "\<exists>r. ConnInsert r \<in> set (snd (insert_op example_client example_insert)) \<and>
     BaseQueryParams.truncate r = withClientQueryParams example_client example_insert \<and>
     session_id (withClientQueryParams example_client example_insert) = Some (js ''s-client'') \<and>
     role (withClientQueryParams example_client example_insert) = Some (Str (js ''admin'')) \<and>
     query_id (withClientQueryParams example_client example_insert) = Some (js ''id-call'')"
proof -
  have v: "values_insert example_insert \<noteq> Rows []"
    by (simp add: example_insert_def BaseQueryParams.defs InsertParams.defs)
  have e: "valuesEncoder example_client =
      \<lparr> validateInsertValues = (\<lambda>_ _. Inr ()),
        encodeValues = (\<lambda>_ _. Inr (PayloadString (js ''[1]''))) \<rparr>"
    by (simp add: example_client_def)
  have "\<exists>r. ConnInsert r \<in> set (snd (insert_op example_client example_insert))"
    unfolding insert_op_calls [OF v] by (simp add: e Let_def)
  then obtain r where r: "ConnInsert r \<in> set (snd (insert_op example_client example_insert))"
    by blast
  have s: "session_id example_insert = None" "sessionId example_client = Some (js ''s-client'')"
    "role example_insert = Some (Str (js ''admin''))"
    "query_id example_insert = Some (js ''id-call'')"
    by (simp_all add: example_insert_def example_base_def example_client_def
        BaseQueryParams.defs InsertParams.defs)
  show ?thesis
    using effective_params [of example_client example_insert _ _ example_insert] r s
    by auto
qed

text \<open>
  A command call and an exec call each make one call, on the connection, with nothing
  appended to the text; on a text that is not made of separators only the statement is
  the trimmed text without its maximal suffix of separators.
\<close>

lemma command_exec_stripped:
  assumes "\<not> set (trim (query p)) \<subseteq> {semi}"
  shows "\<exists>rc re. snd (command_op this p) = [ConnCommand rc] \<and>
     query rc = specTrailingSeparatorTrim (trim (query p)) \<and>
     snd (exec_op this p) = [ConnExec re] \<and>
     query re = specTrailingSeparatorTrim (trim (query p))"
  using command_op_calls [of this p] exec_op_calls [of this p]
    removeTrailingSemi_spec [OF assms] query_withQuery
  by metis

lemma command_exec_examples:
  "\<exists>rc re. snd (command_op this (p\<lparr>query := js ''  SELECT 1;x;; ''\<rparr>)) = [ConnCommand rc] \<and>
     query rc = js ''SELECT 1;x'' \<and>
     snd (exec_op this (p\<lparr>query := js ''  SELECT 1;x;; ''\<rparr>)) = [ConnExec re] \<and>
     query re = js ''SELECT 1;x''"
proof -
  have "removeTrailingSemi (trim (js ''  SELECT 1;x;; '')) = js ''SELECT 1;x''"
    by (simp add: trim_def isWhiteSpace_def removeTrailingSemi_def js_def semi_def)
  then show ?thesis
    using command_op_calls [of this "p\<lparr>query := js ''  SELECT 1;x;; ''\<rparr>"]
      exec_op_calls [of this "p\<lparr>query := js ''  SELECT 1;x;; ''\<rparr>"]
    by (auto simp: query_withQuery)
qed

text \<open>
  C8. The statement of a command call and of an exec call is the caller's text after
  whitespace trimming and trailing-separator stripping, with no clause appended. No
  clause is appended, and a text with anything but separators is stripped
  (\<open>command_exec_stripped\<close>, \<open>command_exec_examples\<close>). For the text \<^verbatim>\<open>" ;;; "\<close>, whose
  trimmed text \<^verbatim>\<open>";;;"\<close> is separators only, the stripped text is empty, but command and
  exec both send \<^verbatim>\<open>";;;"\<close>.
\<close>

theorem command_exec_only_separators_sent:
  "\<exists>rc re. snd (command_op this (p\<lparr>query := js '' ;;; ''\<rparr>)) = [ConnCommand rc] \<and>
     query rc = js '';;;'' \<and>
     snd (exec_op this (p\<lparr>query := js '' ;;; ''\<rparr>)) = [ConnExec re] \<and>
     query re = js '';;;'' \<and>
     specTrailingSeparatorTrim (trim (js '' ;;; '')) = [] \<and>
     query rc \<noteq> specTrailingSeparatorTrim (trim (js '' ;;; '')) \<and>
     query re \<noteq> specTrailingSeparatorTrim (trim (js '' ;;; ''))"
proof -
  have a: "removeTrailingSemi (trim (js '' ;;; '')) = js '';;;''"
    by (simp add: trim_def isWhiteSpace_def removeTrailingSemi_def js_def semi_def)
  have b: "specTrailingSeparatorTrim (trim (js '' ;;; '')) = []"
    by (simp add: specTrailingSeparatorTrim_def trim_def isWhiteSpace_def js_def semi_def)
  have c: "js '';;;'' \<noteq> []"
    by (simp add: js_def)
  show ?thesis
    using command_op_calls [of this "p\<lparr>query := js '' ;;; ''\<rparr>"]
      exec_op_calls [of this "p\<lparr>query := js '' ;;; ''\<rparr>"] a b c
    by (auto simp: query_withQuery)
qed

text \<open>
  C9. When the connection's ping returns an outcome, as its contract says it always does,
  the client's ping returns that outcome and does not raise; a failed probe is the
  outcome \<^verbatim>\<open>{success: false, error: cause}\<close>, returned like any other.
\<close>

theorem ping_never_raises:
  assumes "conn_ping (connection this) = Inr outcome"
  shows "ping_op this = (Inr outcome, [ConnPing])"
  using assms by (simp add: ping_op_def call_def)

theorem ping_never_raises_witness:
  "conn_ping (connection example_client) = Inr (PingFailure (js ''ECONNREFUSED'')) \<and>
   ping_op example_client = (Inr (PingFailure (js ''ECONNREFUSED'')), [ConnPing])"
proof -
  have h: "conn_ping (connection example_client) = Inr (PingFailure (js ''ECONNREFUSED''))"
    by (simp add: example_client_def example_connection_def)
  show ?thesis using ping_never_raises [OF h] h by simp
qed

text \<open>
  C10. A statement text made of \<^verbatim>\<open>';'\<close> only comes out of the trailing-separator trim
  unchanged, so command and exec send it whole, and query sends it whole in front of the
  format clause.
\<close>

theorem only_separators_unchanged:
  "removeTrailingSemi (replicate n semi) = replicate n semi \<and>
   (\<exists>r. snd (command_op this (pe\<lparr>query := replicate n semi\<rparr>)) = [ConnCommand r] \<and>
      query r = replicate n semi) \<and>
   (\<exists>r. snd (exec_op this (pe\<lparr>query := replicate n semi\<rparr>)) = [ConnExec r] \<and>
      query r = replicate n semi) \<and>
   (\<exists>r rest. snd (query_op this (pq\<lparr>query := replicate n semi\<rparr>)) = ConnQuery r # rest \<and>
      query r = replicate n semi @ js '' \<newline>FORMAT '' @
        (case format pq of None \<Rightarrow> js ''JSON'' | Some f \<Rightarrow> f))"
proof -
  have t: "removeTrailingSemi (trim (replicate n semi)) = replicate n semi"
    by (simp add: trim_replicate_semi removeTrailingSemi_replicate)
  have "\<exists>r. snd (command_op this (pe\<lparr>query := replicate n semi\<rparr>)) = [ConnCommand r] \<and>
      query r = replicate n semi"
    using command_op_calls [of this "pe\<lparr>query := replicate n semi\<rparr>"] t
    by (simp add: query_withQuery)
  moreover have "\<exists>r. snd (exec_op this (pe\<lparr>query := replicate n semi\<rparr>)) = [ConnExec r] \<and>
      query r = replicate n semi"
    using exec_op_calls [of this "pe\<lparr>query := replicate n semi\<rparr>"] t by auto
  moreover have "\<exists>r rest. snd (query_op this (pq\<lparr>query := replicate n semi\<rparr>)) =
      ConnQuery r # rest \<and>
      query r = replicate n semi @ js '' \<newline>FORMAT '' @
        (case format pq of None \<Rightarrow> js ''JSON'' | Some f \<Rightarrow> f)"
    using query_op_calls [of this "pq\<lparr>query := replicate n semi\<rparr>"] t
    by (auto simp: query_withQuery formatQuery_def)
  ultimately show ?thesis by (simp add: removeTrailingSemi_replicate)
qed

end
